theory Spec2Isabelle
  imports Complex_Main "HOL-Library.Char_ord" "HOL-Library.List_Lexorder"
begin

section \<open>Python values used by the cost engine\<close>

text \<open>
  The Lambda functions are Python. Their floats are modelled as \<^typ>\<open>real\<close>: the rounding
  error of IEEE arithmetic is not part of the model, every other step of the source is.
  Numbers read from the configuration table keep their Python type, because arithmetic
  between a \<open>float\<close> and a \<open>Decimal\<close> raises \<open>TypeError\<close> while a comparison between
  them is exact.
\<close>

datatype py_error = TypeError | ZeroDivisionError | StatisticsError | ClientError

datatype pynum = PyInt int | PyFloat real | PyDecimal real

fun num_val :: "pynum \<Rightarrow> real" where
  "num_val (PyInt i) = of_int i"
| "num_val (PyFloat x) = x"
| "num_val (PyDecimal d) = d"

text \<open>Truth value of a number in a condition such as \<open>if monthly_limit:\<close>.\<close>

definition truthy :: "pynum \<Rightarrow> bool" where
  "truthy n = (num_val n \<noteq> 0)"

text \<open>\<open>a / b\<close>: true division. \<open>float\<close> and \<open>Decimal\<close> do not mix.\<close>

fun py_truediv :: "pynum \<Rightarrow> pynum \<Rightarrow> py_error + pynum" where
  "py_truediv (PyFloat a) (PyDecimal b) = Inl TypeError"
| "py_truediv (PyDecimal a) (PyFloat b) = Inl TypeError"
| "py_truediv a b =
     (if num_val b = 0 then Inl ZeroDivisionError
      else case (a, b) of
        (PyDecimal x, _) \<Rightarrow> Inr (PyDecimal (x / num_val b))
      | (_, PyDecimal y) \<Rightarrow> Inr (PyDecimal (num_val a / y))
      | _ \<Rightarrow> Inr (PyFloat (num_val a / num_val b)))"

text \<open>\<open>a * b\<close>.\<close>

fun py_mul :: "pynum \<Rightarrow> pynum \<Rightarrow> py_error + pynum" where
  "py_mul (PyFloat a) (PyDecimal b) = Inl TypeError"
| "py_mul (PyDecimal a) (PyFloat b) = Inl TypeError"
| "py_mul (PyInt a) (PyInt b) = Inr (PyInt (a * b))"
| "py_mul (PyDecimal a) b = Inr (PyDecimal (a * num_val b))"
| "py_mul a (PyDecimal b) = Inr (PyDecimal (num_val a * b))"
| "py_mul a b = Inr (PyFloat (num_val a * num_val b))"

text \<open>\<open>round(x, ndigits)\<close>: to the nearest multiple of \<open>10 ** -ndigits\<close>, ties to even.\<close>

definition py_round :: "real \<Rightarrow> nat \<Rightarrow> real" where
  "py_round x ndigits =
     (let y = x * 10 ^ ndigits;
          f = \<lfloor>y\<rfloor>;
          d = y - of_int f;
          r = (if d < 1 / 2 then f else if 1 / 2 < d then f + 1
               else if even f then f else f + 1)
      in of_int r / 10 ^ ndigits)"

text \<open>\<open>sum(float(x) for x in xs)\<close>: the integer \<open>0\<close> when there is nothing to add.\<close>

definition py_sum :: "real list \<Rightarrow> pynum" where
  "py_sum xs = (if xs = [] then PyInt 0 else PyFloat (sum_list xs))"

text \<open>
  A dictionary that is iterated is an association list in insertion order.
  \<open>d[k] = d.get(k, 0) + c\<close> keeps the position of a key already present.
\<close>

fun dict_add :: "'k \<Rightarrow> real \<Rightarrow> ('k \<times> real) list \<Rightarrow> ('k \<times> real) list" where
  "dict_add k c [] = [(k, 0 + c)]"
| "dict_add k c ((k', v) # d) =
     (if k = k' then (k', v + c) # d else (k', v) # dict_add k c d)"

section \<open>Cost records\<close>

text \<open>
  An item of the cost-data table. \<open>timestamp\<close> is the sort key of the table and always
  present; the other attributes are read with \<open>record.get\<close>.
\<close>

record cost_record =
  service_name :: "string option"
  cr_timestamp :: string
  cost_amount :: "real option"
  resource_id :: "string option"
  cr_region :: "string option"

text \<open>\<open>float(record.get('cost_amount', 0))\<close>\<close>

definition cost_of :: "cost_record \<Rightarrow> real" where
  "cost_of r = (case cost_amount r of None \<Rightarrow> 0 | Some c \<Rightarrow> c)"

text \<open>\<open>record.get('service_name', 'Unknown')\<close>\<close>

definition service_of :: "cost_record \<Rightarrow> string" where
  "service_of r = (case service_name r of None \<Rightarrow> ''Unknown'' | Some s \<Rightarrow> s)"

text \<open>\<open>record['timestamp'][:10]\<close>\<close>

definition date_of :: "cost_record \<Rightarrow> string" where
  "date_of r = take 10 (cr_timestamp r)"

section \<open>Alerts\<close>

text \<open>
  Instants are microseconds since the epoch. The source stores them as ISO-8601 text of
  UTC instants and compares the text; that order is the order of the instants.
\<close>

type_synonym time = int

definition hours :: "int \<Rightarrow> int" where
  "hours n = n * 3600000000"

definition days :: "int \<Rightarrow> int" where
  "days n = n * 86400000000"

text \<open>
  The alert dictionary built by \<open>create_alert\<close>. \<open>alert_id\<close> is the text
  \<open>type_service_region_\<close> followed by the instant cut to whole seconds (the source prints
  it with \<open>strftime\<close>); the free-text \<open>message\<close> is not modelled.
\<close>

record alert =
  alert_id :: "string \<times> int"
  timestamp :: time
  alert_type :: string
  severity :: string
  service :: string
  region :: string
  current_cost :: real
  threshold :: real
  status :: string
  acknowledged :: bool
  acknowledged_by :: "string option"
  acknowledged_at :: "time option"
  resolved :: bool
  resolved_at :: "time option"
  resolved_by :: "string option"
  resolution_notes :: "string option"
  notification_sent :: bool
  notification_channels :: "string list"
  test_mode :: bool
  ttl :: int

definition lower_char :: "char \<Rightarrow> char" where
  "lower_char c =
     (if CHR ''A'' \<le> c \<and> c \<le> CHR ''Z'' then char_of (of_char c + (32::nat)) else c)"

definition alert_id_prefix :: "string \<Rightarrow> string \<Rightarrow> string \<Rightarrow> string" where
  "alert_id_prefix ty sv rg =
     ty @ ''_'' @ map (\<lambda>c. if c = CHR '' '' then CHR ''_'' else c) (map lower_char sv)
        @ ''_'' @ rg @ ''_''"

definition create_alert ::
  "time \<Rightarrow> string \<Rightarrow> string \<Rightarrow> string \<Rightarrow> string \<Rightarrow> real \<Rightarrow> real \<Rightarrow> bool \<Rightarrow> alert" where
  "create_alert now ty sev sv rg cost thr test =
     \<lparr> alert_id = (alert_id_prefix ty sv rg, now div 1000000),
       timestamp = now,
       alert_type = ty,
       severity = sev,
       service = sv,
       region = rg,
       current_cost = py_round cost 2,
       threshold = py_round thr 2,
       status = ''active'',
       acknowledged = False,
       acknowledged_by = None,
       acknowledged_at = None,
       resolved = False,
       resolved_at = None,
       resolved_by = None,
       resolution_notes = None,
       notification_sent = False,
       notification_channels = [],
       test_mode = test,
       ttl = (now + days 30) div 1000000 \<rparr>"

section \<open>Threshold Evaluator\<close>


definition dict_get :: "('k \<times> 'v) list \<Rightarrow> 'k \<Rightarrow> 'v \<Rightarrow> 'v" where
  "dict_get d k dflt = (case map_of d k of None \<Rightarrow> dflt | Some v \<Rightarrow> v)"







section \<open>Budget Evaluator\<close>

type_synonym budget_config = "(string \<times> (string \<times> pynum) list) list"

text \<open>
  \<open>check_budget_alerts\<close>. \<open>budget_response\<close> is what \<open>config_table.get_item\<close> did: it
  raised, or returned a response without or with an \<open>Item\<close>. \<open>monthly_costs\<close> are the
  records of the month to date. Any exception inside is caught and gives \<open>[]\<close>.
\<close>

definition check_budget_alerts ::
  "time \<Rightarrow> py_error + budget_config option \<Rightarrow> cost_record list \<Rightarrow> bool \<Rightarrow> alert list" where
  "check_budget_alerts now budget_response monthly_costs test =
     (case budget_response of
        Inl e \<Rightarrow> []
      | Inr None \<Rightarrow> []
      | Inr (Some budget_config) \<Rightarrow>
          (let total_monthly_cost = py_sum (map cost_of monthly_costs);
               overall_budget = dict_get budget_config ''overall_budget'' []
           in case map_of overall_budget ''monthly_limit'' of
                None \<Rightarrow> []
              | Some monthly_limit \<Rightarrow>
                  if \<not> truthy monthly_limit then []
                  else
                    (case py_truediv total_monthly_cost monthly_limit of
                       Inl e \<Rightarrow> []
                     | Inr q \<Rightarrow>
                        (case py_mul q (PyInt 100) of
                           Inl e \<Rightarrow> []
                         | Inr percentage_used \<Rightarrow>
                             if 100 \<le> num_val percentage_used then
                               [create_alert now ''budget_exceeded'' ''critical'' ''Overall'' ''All''
                                  (num_val total_monthly_cost) (num_val monthly_limit) test]
                             else if 80 \<le> num_val percentage_used then
                               (case py_mul monthly_limit (PyFloat (8 / 10)) of
                                  Inl e \<Rightarrow> []
                                | Inr t \<Rightarrow>
                                   [create_alert now ''budget_warning'' ''warning'' ''Overall'' ''All''
                                      (num_val total_monthly_cost) (num_val t) test])
                             else []))))"

text \<open>The percentage the evaluator compares, \<open>total / monthly_limit * 100\<close>.\<close>

definition percentage_used :: "real \<Rightarrow> real \<Rightarrow> real" where
  "percentage_used total_cost monthly_limit = total_cost / monthly_limit * 100"

section \<open>Anomaly Detector\<close>

text \<open>
  \<open>statistics.mean\<close> and \<open>statistics.stdev\<close> (the sample standard deviation). Both raise
  \<open>StatisticsError\<close> on too few data points.
\<close>

definition mean :: "real list \<Rightarrow> py_error + real" where
  "mean xs = (if xs = [] then Inl StatisticsError else Inr (sum_list xs / real (length xs)))"

definition stdev :: "real list \<Rightarrow> py_error + real" where
  "stdev xs =
     (if length xs < 2 then Inl StatisticsError
      else let m = sum_list xs / real (length xs)
           in Inr (sqrt (sum_list (map (\<lambda>x. (x - m)\<^sup>2) xs) / real (length xs - 1))))"

text \<open>
  \<open>service_daily_costs[service][date] += cost\<close>, creating the inner dictionary and the
  entry \<open>0\<close> when they are missing.
\<close>

fun nested_add ::
  "string \<Rightarrow> string \<Rightarrow> real \<Rightarrow> (string \<times> (string \<times> real) list) list
     \<Rightarrow> (string \<times> (string \<times> real) list) list" where
  "nested_add sv dt c [] = [(sv, dict_add dt c [])]"
| "nested_add sv dt c ((s, d) # rest) =
     (if sv = s then (s, dict_add dt c d) # rest else (s, d) # nested_add sv dt c rest)"

definition service_daily_costs ::
  "cost_record list \<Rightarrow> (string \<times> (string \<times> real) list) list" where
  "service_daily_costs cost_data =
     foldl (\<lambda>m r. nested_add (service_of r) (date_of r) (cost_of r) m) [] cost_data"

text \<open>\<open>sensitivity_thresholds.get(sensitivity, 2.5)\<close>\<close>

definition sensitivity_threshold :: "string \<Rightarrow> real" where
  "sensitivity_threshold sensitivity =
     dict_get [(''low'', 3), (''medium'', 5 / 2), (''high'', 2)] sensitivity (5 / 2)"

text \<open>
  \<open>max(daily_costs.keys())\<close>, the greatest date text. It is only called on a dictionary
  of at least seven dates; on none Python raises, which the first equation stands for.
\<close>

fun max_str :: "string list \<Rightarrow> string" where
  "max_str [] = []"
| "max_str [k] = k"
| "max_str (k # ks) = max k (max_str ks)"

text \<open>
  The anomaly dictionary of the alerting Lambda. \<open>direction\<close> is the word \<open>spike\<close> or
  \<open>drop\<close> that the source puts into \<open>description\<close>.
\<close>

record anomaly =
  an_service :: string
  an_date :: string
  an_current_cost :: real
  expected_cost :: real
  deviation :: real
  an_severity :: string
  direction :: string

text \<open>The body of the loop over the services in \<open>detect_service_anomalies\<close>.\<close>

definition service_anomaly ::
  "real \<Rightarrow> string \<Rightarrow> (string \<times> real) list \<Rightarrow> py_error + anomaly list" where
  "service_anomaly thr sv daily_costs =
     (let costs = map snd daily_costs
      in if length costs < 7 then Inr []
         else
           case mean costs of
             Inl e \<Rightarrow> Inl e
           | Inr cost_mean \<Rightarrow>
              (case (if 1 < length costs then stdev costs else Inr 0) of
                 Inl e \<Rightarrow> Inl e
               | Inr cost_std \<Rightarrow>
                  (let latest_date = max_str (map fst daily_costs);
                       latest_cost = dict_get daily_costs latest_date 0
                   in if 0 < cost_std then
                        (let z_score = \<bar>latest_cost - cost_mean\<bar> / cost_std
                         in if thr < z_score then
                              Inr [\<lparr> an_service = sv,
                                     an_date = latest_date,
                                     an_current_cost = py_round latest_cost 2,
                                     expected_cost = py_round cost_mean 2,
                                     deviation = py_round z_score 2,
                                     an_severity = (if 3 < z_score then ''critical''
                                                    else if 2 < z_score then ''warning''
                                                    else ''info''),
                                     direction = (if cost_mean < latest_cost then ''spike''
                                                  else ''drop'') \<rparr>]
                            else Inr [])
                      else Inr [])))"

fun anomaly_loop ::
  "real \<Rightarrow> (string \<times> (string \<times> real) list) list \<Rightarrow> py_error + anomaly list" where
  "anomaly_loop thr [] = Inr []"
| "anomaly_loop thr ((sv, daily_costs) # rest) =
     (case service_anomaly thr sv daily_costs of
        Inl e \<Rightarrow> Inl e
      | Inr found \<Rightarrow>
         (case anomaly_loop thr rest of
            Inl e \<Rightarrow> Inl e
          | Inr others \<Rightarrow> Inr (found @ others)))"

definition detect_service_anomalies :: "cost_record list \<Rightarrow> string \<Rightarrow> py_error + anomaly list" where
  "detect_service_anomalies cost_data sensitivity =
     anomaly_loop (sensitivity_threshold sensitivity) (service_daily_costs cost_data)"






text \<open>Seven days of one service: six days at 100, then 300.\<close>

definition day_record :: "string \<Rightarrow> string \<Rightarrow> real \<Rightarrow> cost_record" where
  "day_record sv dt c =
     \<lparr> service_name = Some sv, cr_timestamp = dt, cost_amount = Some c,
       resource_id = None, cr_region = None \<rparr>"

definition spike_week :: "cost_record list" where
  "spike_week =
     [day_record ''Amazon EC2'' ''2024-01-01'' 100,
      day_record ''Amazon EC2'' ''2024-01-02'' 100,
      day_record ''Amazon EC2'' ''2024-01-03'' 100,
      day_record ''Amazon EC2'' ''2024-01-04'' 100,
      day_record ''Amazon EC2'' ''2024-01-05'' 100,
      day_record ''Amazon EC2'' ''2024-01-06'' 100,
      day_record ''Amazon EC2'' ''2024-01-07'' 300]"

text \<open>Seven days of one service at a constant 100.\<close>

definition flat_week :: "cost_record list" where
  "flat_week =
     [day_record ''Amazon S3'' ''2024-01-01'' 100,
      day_record ''Amazon S3'' ''2024-01-02'' 100,
      day_record ''Amazon S3'' ''2024-01-03'' 100,
      day_record ''Amazon S3'' ''2024-01-04'' 100,
      day_record ''Amazon S3'' ''2024-01-05'' 100,
      day_record ''Amazon S3'' ''2024-01-06'' 100,
      day_record ''Amazon S3'' ''2024-01-07'' 100]"

definition flat_series :: "(string \<times> real) list" where
  "flat_series =
     [(''2024-01-01'', 100), (''2024-01-02'', 100), (''2024-01-03'', 100), (''2024-01-04'', 100),
      (''2024-01-05'', 100), (''2024-01-06'', 100), (''2024-01-07'', 100)]"

definition spike_series :: "(string \<times> real) list" where
  "spike_series =
     [(''2024-01-01'', 100), (''2024-01-02'', 100), (''2024-01-03'', 100), (''2024-01-04'', 100),
      (''2024-01-05'', 100), (''2024-01-06'', 100), (''2024-01-07'', 300)]"

section \<open>Trend Analyzer\<close>

text \<open>The result dictionary of \<open>analyze_cost_trends\<close>.\<close>

record trend =
  trend_direction :: string
  daily_change_rate :: real
  percent_change_week :: real
  volatility :: real
  trend_strength :: real

text \<open>The cost per date, \<open>daily_costs[date] += cost\<close>, in order of first appearance.\<close>

definition daily_costs_of :: "cost_record list \<Rightarrow> (string \<times> real) list" where
  "daily_costs_of cost_data = foldl (\<lambda>d r. dict_add (date_of r) (cost_of r) d) [] cost_data"

text \<open>\<open>[daily_costs[date] for date in sorted(daily_costs.keys())]\<close>\<close>

definition costs_by_date :: "(string \<times> real) list \<Rightarrow> real list" where
  "costs_by_date daily_costs = map (\<lambda>dt. dict_get daily_costs dt 0) (sort (map fst daily_costs))"

text \<open>The least-squares slope over the indices \<open>0 .. n - 1\<close>, as the source computes it.\<close>

definition slope_of :: "real list \<Rightarrow> real \<Rightarrow> real" where
  "slope_of costs y_mean =
     (let n = length costs;
          x_mean = (real n - 1) / 2;
          numerator = sum_list (map (\<lambda>i. (real i - x_mean) * (costs ! i - y_mean)) [0..<n]);
          denominator = sum_list (map (\<lambda>i. (real i - x_mean)\<^sup>2) [0..<n])
      in if denominator \<noteq> 0 then numerator / denominator else 0)"

text \<open>
  The percentage change of the last week. The slices are \<open>costs[-7:]\<close>, \<open>costs[-14:-7]\<close>
  and \<open>costs[:-7]\<close>; \<open>mean\<close> raises on an empty one.
\<close>

definition percent_change_of :: "real list \<Rightarrow> py_error + real" where
  "percent_change_of costs =
     (let n = length costs
      in if 7 \<le> n then
           (case mean (drop (n - 7) costs) of
              Inl e \<Rightarrow> Inl e
            | Inr recent_avg \<Rightarrow>
               (case (if 14 \<le> n then mean (take 7 (drop (n - 14) costs))
                      else mean (take (n - 7) costs)) of
                  Inl e \<Rightarrow> Inl e
                | Inr previous_avg \<Rightarrow>
                    Inr (if 0 < previous_avg
                         then (recent_avg - previous_avg) / previous_avg * 100 else 0)))
         else Inr 0)"

text \<open>
  \<open>analyze_cost_trends\<close>: \<open>None\<close> stands for the empty dictionary returned on fewer than
  two dates. The function has no handler of its own, so an exception leaves it.
\<close>

definition analyze_cost_trends :: "cost_record list \<Rightarrow> py_error + trend option" where
  "analyze_cost_trends cost_data =
     (let daily_costs = daily_costs_of cost_data;
          sorted_dates = sort (map fst daily_costs)
      in if length sorted_dates < 2 then Inr None
         else
           (let costs = costs_by_date daily_costs;
                n = length costs
            in case mean costs of
                 Inl e \<Rightarrow> Inl e
               | Inr y_mean \<Rightarrow>
                  (let slope = slope_of costs y_mean
                   in case percent_change_of costs of
                        Inl e \<Rightarrow> Inl e
                      | Inr percent_change \<Rightarrow>
                          Inr (Some
                            \<lparr> trend_direction =
                                (if 0 < slope then ''increasing''
                                 else if slope < 0 then ''decreasing'' else ''stable''),
                              daily_change_rate = py_round slope 4,
                              percent_change_week = py_round percent_change 2,
                              volatility =
                                py_round (sqrt (sum_list (map (\<lambda>c. (c - y_mean)\<^sup>2) costs) / real n)) 2,
                              trend_strength = min (\<bar>slope\<bar> * 10) 100 \<rparr>))))"

text \<open>
  The slope that \<open>analyze_cost_trends\<close> fits to the records: its local variable \<open>slope\<close>.
  The mean is the one of at least two values here.
\<close>

definition fitted_slope :: "cost_record list \<Rightarrow> real" where
  "fitted_slope cost_data =
     (let costs = costs_by_date (daily_costs_of cost_data)
      in slope_of costs (sum_list costs / real (length costs)))"




text \<open>
  A budget item with a monthly limit of 1000, as the table returns it (numbers of the
  table arrive as \<open>Decimal\<close>) and as a test double would give it (an \<open>int\<close>), and a
  month to date of one record.
\<close>

definition budget_item :: "pynum \<Rightarrow> py_error + budget_config option" where
  "budget_item monthly_limit =
     Inr (Some [(''overall_budget'', [(''monthly_limit'', monthly_limit)])])"

definition month_of :: "real \<Rightarrow> cost_record list" where
  "month_of c = [day_record ''Amazon EC2'' ''2024-01-15T00:00:00'' c]"

section \<open>Recommendation Engine\<close>

text \<open>The entry of \<open>resource_costs\<close> kept per resource id.\<close>

record resource_total =
  total_cost :: real
  rt_service :: "string option"
  rt_region :: "string option"









section \<open>Alert Manager\<close>

text \<open>
  The alerts table and the messages handed to the notification service. What the outside
  world does while one candidate is processed is an \<open>env\<close>: the reading of the clock and
  which of the four remote calls raise.
\<close>

record store =
  alerts_table :: "alert list"
  published :: "(string \<times> alert) list"

record env =
  clock :: time
  scan_fails :: bool
  put_fails :: bool
  publish_fails :: bool
  update_fails :: bool

record topics =
  ALERTS_TOPIC_ARN :: string
  ANOMALIES_TOPIC_ARN :: string
  BUDGET_TOPIC_ARN :: string

text \<open>The filter expression of the duplicate scan, for the candidate \<open>a\<close> at \<open>recent_time\<close>.\<close>

definition scan_filter :: "time \<Rightarrow> alert \<Rightarrow> alert \<Rightarrow> bool" where
  "scan_filter recent_time a x =
     (alert_type x = alert_type a \<and> service x = service a \<and> region x = region a
      \<and> recent_time < timestamp x \<and> status x = ''active'')"

text \<open>\<open>is_duplicate_alert\<close>: a failing scan is logged and answered with \<open>False\<close>.\<close>

definition is_duplicate_alert :: "env \<Rightarrow> alert list \<Rightarrow> alert \<Rightarrow> bool" where
  "is_duplicate_alert e table a =
     (if scan_fails e then False
      else 0 < length (filter (scan_filter (clock e - hours 1) a) table))"

text \<open>
  \<open>put_item\<close>: the primary key of the table is \<open>alert_id\<close> with \<open>timestamp\<close>; an item with
  the key of a stored one replaces it.
\<close>

fun put_item :: "alert list \<Rightarrow> alert \<Rightarrow> alert list" where
  "put_item [] a = [a]"
| "put_item (x # xs) a =
     (if alert_id x = alert_id a \<and> timestamp x = timestamp a then a # xs
      else x # put_item xs a)"

text \<open>\<open>store_alert\<close> logs a failure and raises it again.\<close>

definition store_alert :: "env \<Rightarrow> alert list \<Rightarrow> alert \<Rightarrow> py_error + alert list" where
  "store_alert e table a = (if put_fails e then Inl ClientError else Inr (put_item table a))"

definition get_topic_for_alert :: "topics \<Rightarrow> alert \<Rightarrow> string" where
  "get_topic_for_alert tp a =
     (if alert_type a \<in> set [''threshold_breach'', ''service_threshold_breach'']
        then ALERTS_TOPIC_ARN tp
      else if alert_type a = ''anomaly_detection'' then ANOMALIES_TOPIC_ARN tp
      else if alert_type a \<in> set [''budget_exceeded'', ''budget_warning'']
        then BUDGET_TOPIC_ARN tp
      else ALERTS_TOPIC_ARN tp)"

text \<open>
  The update that marks the notification as sent, on the item with the alert's key
  (\<open>store_alert\<close> has just written it).
\<close>

definition mark_sent :: "alert list \<Rightarrow> alert \<Rightarrow> alert list" where
  "mark_sent table a =
     map (\<lambda>x. if alert_id x = alert_id a \<and> timestamp x = timestamp a
              then x\<lparr> notification_sent := True, notification_channels := [''email'', ''slack''] \<rparr>
              else x) table"

text \<open>
  \<open>send_alert_notification\<close> never raises: it returns early without a topic and logs
  every exception of the publish and of the update.
\<close>

definition send_alert_notification :: "topics \<Rightarrow> env \<Rightarrow> store \<Rightarrow> alert \<Rightarrow> store" where
  "send_alert_notification tp e s a =
     (let topic_arn = get_topic_for_alert tp a
      in if topic_arn = [] then s
         else if publish_fails e then s
         else
           (let s1 = s\<lparr> published := published s @ [(topic_arn, a)] \<rparr>
            in if update_fails e then s1
               else s1\<lparr> alerts_table := mark_sent (alerts_table s1) a \<rparr>))"

text \<open>
  The body of the loop of \<open>process_alerts\<close> with its \<open>try\<close>: the state is the store and
  \<open>processed_count\<close>.
\<close>

definition process_alert :: "topics \<Rightarrow> env \<Rightarrow> store \<times> nat \<Rightarrow> alert \<Rightarrow> store \<times> nat" where
  "process_alert tp e st a =
     (case st of (s, processed_count) \<Rightarrow>
        if \<not> is_duplicate_alert e (alerts_table s) a then
          (case store_alert e (alerts_table s) a of
             Inl err \<Rightarrow> (s, processed_count)
           | Inr table \<Rightarrow>
               (send_alert_notification tp e (s\<lparr> alerts_table := table \<rparr>) a,
                processed_count + 1))
        else (s, processed_count))"

text \<open>The loop: the \<open>i\<close>-th candidate of the run meets the world \<open>E i\<close>.\<close>

fun process_loop ::
  "topics \<Rightarrow> (nat \<Rightarrow> env) \<Rightarrow> nat \<Rightarrow> alert list \<Rightarrow> store \<times> nat \<Rightarrow> store \<times> nat" where
  "process_loop tp E i [] st = st"
| "process_loop tp E i (a # rest) st = process_loop tp E (Suc i) rest (process_alert tp (E i) st a)"

definition process_alerts :: "topics \<Rightarrow> (nat \<Rightarrow> env) \<Rightarrow> store \<Rightarrow> alert list \<Rightarrow> store \<times> nat" where
  "process_alerts tp E s alerts =
     (if alerts = [] then (s, 0) else process_loop tp E 0 alerts (s, 0))"

text \<open>The identity of an alert for deduplication.\<close>

definition same_key :: "alert \<Rightarrow> alert \<Rightarrow> bool" where
  "same_key a x =
     (alert_type x = alert_type a \<and> service x = service a \<and> region x = region a)"

section \<open>Alert lifecycle\<close>

text \<open>The \<open>SET\<close> expressions of \<open>acknowledge_alert\<close> and \<open>resolve_alert\<close> on one item.\<close>

definition acknowledge_update :: "time \<Rightarrow> string \<Rightarrow> alert \<Rightarrow> alert" where
  "acknowledge_update at_time by x =
     x\<lparr> acknowledged := True, acknowledged_by := Some by, acknowledged_at := Some at_time,
        status := ''acknowledged'' \<rparr>"

definition resolve_update :: "time \<Rightarrow> string option \<Rightarrow> string option \<Rightarrow> alert \<Rightarrow> alert" where
  "resolve_update at_time by notes x =
     (let x1 = x\<lparr> resolved := True, resolved_at := Some at_time, status := ''resolved'' \<rparr>;
          x2 = (case by of
                  None \<Rightarrow> x1
                | Some b \<Rightarrow> if b = [] then x1 else x1\<lparr> resolved_by := Some b \<rparr>)
      in case notes of
           None \<Rightarrow> x2
         | Some n \<Rightarrow> if n = [] then x2 else x2\<lparr> resolution_notes := Some n \<rparr>)"

text \<open>
  \<open>acknowledge_alert\<close> and \<open>resolve_alert\<close> on the table: the update carries no condition
  on the current status; a failing call is logged and answered with \<open>False\<close>.
\<close>

definition acknowledge_alert ::
  "time \<Rightarrow> bool \<Rightarrow> alert list \<Rightarrow> string \<times> int \<Rightarrow> string \<Rightarrow> alert list \<times> bool" where
  "acknowledge_alert at_time fails table aid by =
     (if fails then (table, False)
      else (map (\<lambda>x. if alert_id x = aid then acknowledge_update at_time by x else x) table,
            True))"

definition resolve_alert ::
  "time \<Rightarrow> bool \<Rightarrow> alert list \<Rightarrow> string \<times> int \<Rightarrow> string option \<Rightarrow> string option
     \<Rightarrow> alert list \<times> bool" where
  "resolve_alert at_time fails table aid by notes =
     (if fails then (table, False)
      else (map (\<lambda>x. if alert_id x = aid then resolve_update at_time by notes x else x) table,
            True))"

text \<open>A sequence of operator actions on one alert id, each at its time.\<close>

datatype lifecycle_op =
  Acknowledge time bool string
| Resolve time bool "string option" "string option"

fun apply_op :: "string \<times> int \<Rightarrow> alert list \<Rightarrow> lifecycle_op \<Rightarrow> alert list" where
  "apply_op aid table (Acknowledge t fails by) = fst (acknowledge_alert t fails table aid by)"
| "apply_op aid table (Resolve t fails by notes) = fst (resolve_alert t fails table aid by notes)"

definition run_ops :: "string \<times> int \<Rightarrow> lifecycle_op list \<Rightarrow> alert list \<Rightarrow> alert list" where
  "run_ops aid ops table = foldl (apply_op aid) table ops"

text \<open>Concrete alerts and worlds for the examples.\<close>

definition sample_topics :: topics where
  "sample_topics =
     \<lparr> ALERTS_TOPIC_ARN = ''arn:alerts'', ANOMALIES_TOPIC_ARN = ''arn:anomalies'',
       BUDGET_TOPIC_ARN = ''arn:budget'' \<rparr>"

definition breach_at :: "time \<Rightarrow> alert" where
  "breach_at t = create_alert t ''threshold_breach'' ''warning'' ''Overall'' ''All'' 150 100 False"

definition world :: "time \<Rightarrow> bool \<Rightarrow> bool \<Rightarrow> bool \<Rightarrow> env" where
  "world t scan_f put_f publish_f =
     \<lparr> clock = t, scan_fails = scan_f, put_fails = put_f, publish_fails = publish_f,
       update_fails = False \<rparr>"

definition empty_store :: store where
  "empty_store = \<lparr> alerts_table = [], published = [] \<rparr>"

text \<open>An alert that was stored and then resolved.\<close>

definition resolved_table :: "alert list" where
  "resolved_table = fst (resolve_alert 1 False [breach_at 0] (alert_id (breach_at 0)) None None)"

text \<open>
  The store after a first run that processed one threshold alert created at instant 0,
  and the candidate of a second run ten minutes later with the same type, service and
  region.
\<close>

definition stored_breach :: store where
  "stored_breach =
     fst (process_alerts sample_topics (\<lambda>i. world 1000000 False False False) empty_store
            [breach_at 0])"

definition later_breach :: alert where
  "later_breach = breach_at 600000000"



section \<open>Facts about the anomaly detector\<close>

lemma sum_list_const: "\<forall>x\<in>set xs. x = (c::real) \<Longrightarrow> sum_list xs = c * real (length xs)"
  by (induction xs) (auto simp: algebra_simps)


lemma dict_add_keys: "fst ` set (dict_add k c d) = insert k (fst ` set d)"
  by (induction d) force+

lemma nested_add_keys: "fst ` set (nested_add sv dt c m) = insert sv (fst ` set m)"
  by (induction m) force+

lemma nested_add_distinct: "distinct (map fst m) \<Longrightarrow> distinct (map fst (nested_add sv dt c m))"
proof (induction m)
  case Nil
  then show ?case by simp
next
  case (Cons p m)
  obtain s d where p: "p = (s, d)" by (cases p)
  from Cons p show ?case
    using nested_add_keys[of sv dt c m] by auto
qed

lemma foldl_nested_add_distinct:
  "distinct (map fst m) \<Longrightarrow>
   distinct (map fst (foldl (\<lambda>m r. nested_add (service_of r) (date_of r) (cost_of r) m) m rs))"
  by (induction rs arbitrary: m) (simp_all add: nested_add_distinct)

lemma service_daily_costs_distinct: "distinct (map fst (service_daily_costs cost_data))"
  unfolding service_daily_costs_def by (rule foldl_nested_add_distinct) simp

lemma service_anomaly_total:
  "\<exists>l. service_anomaly thr sv d = Inr l \<and> (\<forall>a\<in>set l. an_service a = sv)"
  by (auto simp: service_anomaly_def mean_def stdev_def Let_def)

lemma anomaly_loop_total: "\<exists>l. anomaly_loop thr m = Inr l"
proof (induction m)
  case Nil
  then show ?case by simp
next
  case (Cons p m)
  obtain s d where p: "p = (s, d)" by (cases p)
  from service_anomaly_total[of thr s d] obtain l1 where "service_anomaly thr s d = Inr l1" by blast
  moreover from Cons obtain l2 where "anomaly_loop thr m = Inr l2" by blast
  ultimately show ?case using p by simp
qed

lemma anomaly_loop_filter:
  assumes "distinct (map fst m)" and "(sv, d) \<in> set m"
      and "anomaly_loop thr m = Inr anoms" and "service_anomaly thr sv d = Inr found"
  shows "filter (\<lambda>a. an_service a = sv) anoms = found"
  using assms
proof (induction m arbitrary: anoms)
  case Nil
  then show ?case by simp
next
  case (Cons p m)
  obtain s e where p: "p = (s, e)" by (cases p)
  from service_anomaly_total[of thr s e] obtain l1
    where l1: "service_anomaly thr s e = Inr l1" "\<forall>a\<in>set l1. an_service a = s" by blast
  from anomaly_loop_total[of thr m] obtain l2 where l2: "anomaly_loop thr m = Inr l2" by blast
  from Cons.prems(3) p l1 l2 have anoms: "anoms = l1 @ l2" by simp
  show ?case
  proof (cases "s = sv")
    case True
    with Cons.prems(1,2) p have "e = d" and notin: "sv \<notin> fst ` set m"
      by (auto simp: image_iff)
    have "filter (\<lambda>a. an_service a = sv) l2 = []"
    proof (rule ccontr)
      assume "filter (\<lambda>a. an_service a = sv) l2 \<noteq> []"
      then obtain a where a: "a \<in> set l2" "an_service a = sv"
        by (auto simp: filter_empty_conv)
      have "\<And>l. anomaly_loop thr m = Inr l \<Longrightarrow> a \<in> set l \<Longrightarrow> an_service a \<in> fst ` set m"
      proof (induction m)
        case Nil
        then show ?case by simp
      next
        case (Cons q m)
        obtain t f where q: "q = (t, f)" by (cases q)
        from service_anomaly_total[of thr t f] obtain k1
          where k1: "service_anomaly thr t f = Inr k1" "\<forall>a\<in>set k1. an_service a = t" by blast
        from anomaly_loop_total[of thr m] obtain k2 where k2: "anomaly_loop thr m = Inr k2" by blast
        from Cons.prems q k1 k2 have "a \<in> set k1 \<or> a \<in> set k2" by auto
        then show ?case using k1 k2 Cons.IH q by auto
      qed
      with l2 a notin show False by blast
    qed
    moreover from l1 True have "filter (\<lambda>a. an_service a = sv) l1 = l1"
      by (auto simp: filter_id_conv)
    moreover from True \<open>e = d\<close> l1 Cons.prems(4) have "l1 = found" by simp
    ultimately show ?thesis using anoms by simp
  next
    case False
    with l1 have "filter (\<lambda>a. an_service a = sv) l1 = []"
      by (auto simp: filter_empty_conv)
    moreover from False Cons.prems(1,2) p have "distinct (map fst m)" "(sv, d) \<in> set m" by auto
    ultimately show ?thesis using Cons.IH[OF _ _ l2 Cons.prems(4)] anoms by simp
  qed
qed










lemma sqrt_spike_bounds: "75 < sqrt (40000 / 7)" "sqrt (40000 / 7) < 76"
proof -
  show "75 < sqrt (40000 / 7)" by (rule real_less_rsqrt) simp
  show "sqrt (40000 / 7) < 76" by (rule real_less_lsqrt) simp_all
qed

lemma spike_z_bounds:
  "2 < (1200 / 7) / sqrt (40000 / 7)" "(1200 / 7) / sqrt (40000 / 7) < 5 / 2"
proof -
  have pos: "0 < sqrt (40000 / 7)" by simp
  have "2 * sqrt (40000 / 7) < 1200 / 7"
    using sqrt_spike_bounds(2) by linarith
  then show "2 < (1200 / 7) / sqrt (40000 / 7)"
    by (rule iffD2[OF pos_less_divide_eq[OF pos]])
  have "1200 / 7 < 5 / 2 * sqrt (40000 / 7)"
    using sqrt_spike_bounds(1) by linarith
  then show "(1200 / 7) / sqrt (40000 / 7) < 5 / 2"
    by (rule iffD2[OF pos_divide_less_eq[OF pos]])
qed

lemma spike_series_shape:
  assumes "map snd d = [100, 100, 100, 100, 100, 100, 300::real]"
  shows "\<exists>k1 k2 k3 k4 k5 k6 k7.
     d = [(k1, 100), (k2, 100), (k3, 100), (k4, 100), (k5, 100), (k6, 100), (k7, 300)]"
  using assms by (auto simp: map_eq_Cons_conv)

lemma spike_service_anomaly:
  assumes costs: "map snd d = [100, 100, 100, 100, 100, 100, 300]"
      and dates: "sorted_wrt (<) (map fst d)"
  shows "service_anomaly thr sv d =
     (if thr < (1200 / 7) / sqrt (40000 / 7) then
        Inr [\<lparr> an_service = sv, an_date = fst (last d), an_current_cost = 300,
               expected_cost = 12857 / 100,
               deviation = py_round ((1200 / 7) / sqrt (40000 / 7)) 2,
               an_severity = ''warning'', direction = ''spike'' \<rparr>]
      else Inr [])"
proof -
  from spike_series_shape[OF costs] obtain k1 k2 k3 k4 k5 k6 k7 where
    d: "d = [(k1, 100), (k2, 100), (k3, 100), (k4, 100), (k5, 100), (k6, 100), (k7, 300)]"
    by blast
  from dates d have ord: "k1 < k7" "k2 < k7" "k3 < k7" "k4 < k7" "k5 < k7" "k6 < k7"
    by simp_all
  then have mx: "max_str (map fst d) = k7"
    by (simp add: d max_absorb2 less_imp_le)
  from ord have lk: "dict_get d k7 0 = 300"
    by (auto simp: d dict_get_def)
  have mn: "mean (map snd d) = Inr (900 / 7)"
    by (simp add: d mean_def)
  have sd: "stdev (map snd d) = Inr (sqrt (40000 / 7))"
    by (simp add: d stdev_def power2_eq_square)
  have r1: "py_round 300 2 = 300" by (simp add: py_round_def)
  have r2: "py_round (900 / 7) 2 = 12857 / 100" by (simp add: py_round_def Let_def)
  have z3: "\<not> 3 < (1200 / 7) / sqrt (40000 / 7)"
    using spike_z_bounds(2) by simp
  have len: "length d = 7" by (simp add: d)
  have lst: "fst (last d) = k7" by (simp add: d)
  show ?thesis
    unfolding service_anomaly_def Let_def
    using spike_z_bounds(1) z3
    by (simp add: len mn sd mx lk r1 r2 lst)
qed

lemma spike_week_grouped: "service_daily_costs spike_week = [(''Amazon EC2'', spike_series)]"
  by (simp add: service_daily_costs_def spike_week_def spike_series_def day_record_def
        service_of_def date_of_def cost_of_def)

lemma spike_series_facts:
  "map snd spike_series = [100, 100, 100, 100, 100, 100, 300]"
  "sorted_wrt (<) (map fst spike_series)"
  by (simp_all add: spike_series_def)

lemma sensitivity_threshold_values:
  "sensitivity_threshold ''low'' = 3"
  "sensitivity_threshold ''medium'' = 5 / 2"
  "sensitivity_threshold ''high'' = 2"
  by (simp_all add: sensitivity_threshold_def dict_get_def)

text \<open>
  Claim C5 says that the week 100, 100, 100, 100, 100, 100, 300 gives exactly one anomaly
  under sensitivity \<open>medium\<close>. The detector returns none: the z-score of the last day is
  \<open>6 / sqrt 7\<close>, about 2.27, below the threshold 2.5.
\<close>

theorem spike_week_medium_counterexample:
  "detect_service_anomalies spike_week ''medium'' = Inr []"
  using spike_z_bounds(2)
  by (simp add: detect_service_anomalies_def spike_week_grouped sensitivity_threshold_values
        spike_service_anomaly[OF spike_series_facts])

text \<open>
  Claim C5, amended. For a service whose seven daily costs are 100 six times and then 300,
  in date order, sensitivity \<open>medium\<close> reports nothing for the service, and sensitivity
  \<open>high\<close> (threshold 2.0) reports exactly one anomaly, for the seventh day, a spike of
  severity \<open>warning\<close>.
\<close>

theorem spike_week_by_sensitivity:
  assumes "(sv, daily) \<in> set (service_daily_costs cost_data)"
      and "map snd daily = [100, 100, 100, 100, 100, 100, 300]"
      and "sorted_wrt (<) (map fst daily)"
  shows "(\<exists>anoms. detect_service_anomalies cost_data ''medium'' = Inr anoms
            \<and> filter (\<lambda>a. an_service a = sv) anoms = [])
       \<and> (\<exists>anoms. detect_service_anomalies cost_data ''high'' = Inr anoms
            \<and> map (\<lambda>a. (an_date a, direction a, an_severity a))
                  (filter (\<lambda>a. an_service a = sv) anoms)
                = [(fst (last daily), ''spike'', ''warning'')])"
proof
  let ?m = "service_daily_costs cost_data"
  from anomaly_loop_total[of "5 / 2" ?m] obtain anoms where an: "anomaly_loop (5 / 2) ?m = Inr anoms"
    by blast
  have "service_anomaly (5 / 2) sv daily = Inr []"
    using spike_z_bounds(2) by (simp add: spike_service_anomaly[OF assms(2,3)])
  from anomaly_loop_filter[OF service_daily_costs_distinct assms(1) an this] an
  show "\<exists>anoms. detect_service_anomalies cost_data ''medium'' = Inr anoms
            \<and> filter (\<lambda>a. an_service a = sv) anoms = []"
    by (simp add: detect_service_anomalies_def sensitivity_threshold_values)
next
  let ?m = "service_daily_costs cost_data"
  from anomaly_loop_total[of 2 ?m] obtain anoms where an: "anomaly_loop 2 ?m = Inr anoms"
    by blast
  have "service_anomaly 2 sv daily =
     Inr [\<lparr> an_service = sv, an_date = fst (last daily), an_current_cost = 300,
               expected_cost = 12857 / 100,
               deviation = py_round ((1200 / 7) / sqrt (40000 / 7)) 2,
               an_severity = ''warning'', direction = ''spike'' \<rparr>]"
    using spike_z_bounds(1) by (simp add: spike_service_anomaly[OF assms(2,3)])
  from anomaly_loop_filter[OF service_daily_costs_distinct assms(1) an this] an
  show "\<exists>anoms. detect_service_anomalies cost_data ''high'' = Inr anoms
            \<and> map (\<lambda>a. (an_date a, direction a, an_severity a))
                  (filter (\<lambda>a. an_service a = sv) anoms)
                = [(fst (last daily), ''spike'', ''warning'')]"
    by (simp add: detect_service_anomalies_def sensitivity_threshold_values)
qed

text \<open>The theorem at the week \<^const>\<open>spike_week\<close>.\<close>

theorem spike_week_by_sensitivity_witness:
  "(''Amazon EC2'', spike_series) \<in> set (service_daily_costs spike_week)
   \<and> map snd spike_series = [100, 100, 100, 100, 100, 100, 300]
   \<and> sorted_wrt (<) (map fst spike_series)
   \<and> (\<exists>anoms. detect_service_anomalies spike_week ''medium'' = Inr anoms
            \<and> filter (\<lambda>a. an_service a = ''Amazon EC2'') anoms = [])
   \<and> (\<exists>anoms. detect_service_anomalies spike_week ''high'' = Inr anoms
            \<and> map (\<lambda>a. (an_date a, direction a, an_severity a))
                  (filter (\<lambda>a. an_service a = ''Amazon EC2'') anoms)
                = [(''2024-01-07'', ''spike'', ''warning'')])"
proof -
  have h1: "(''Amazon EC2'', spike_series) \<in> set (service_daily_costs spike_week)"
    by (simp add: spike_week_grouped)
  have l: "fst (last spike_series) = ''2024-01-07''"
    by (simp add: spike_series_def)
  from spike_week_by_sensitivity[OF h1 spike_series_facts] h1 spike_series_facts l
  show ?thesis by simp
qed

section \<open>Facts about the trend analyzer\<close>

lemma flat_week_daily: "daily_costs_of flat_week = flat_series"
  by (simp add: daily_costs_of_def flat_week_def flat_series_def day_record_def date_of_def cost_of_def)

lemma flat_series_costs: "costs_by_date flat_series = [100, 100, 100, 100, 100, 100, 100]"
  by (simp add: costs_by_date_def flat_series_def dict_get_def)

lemma sum_list_all_zero: "\<forall>x\<in>set xs. f x = (0::real) \<Longrightarrow> sum_list (map f xs) = 0"
  by (induction xs) auto

lemma dict_get_const:
  assumes "\<forall>c\<in>snd ` set d. c = c0" and "k \<in> fst ` set d"
  shows "dict_get d k dflt = c0"
proof -
  from assms(2) obtain v where "map_of d k = Some v"
    by (metis map_of_eq_None_iff not_Some_eq)
  moreover from this have "(k, v) \<in> set d" by (rule map_of_SomeD)
  with assms(1) have "v = c0" by force
  ultimately show ?thesis by (simp add: dict_get_def)
qed

lemma costs_by_date_const:
  assumes "\<forall>c\<in>snd ` set d. c = c0"
  shows "\<forall>c\<in>set (costs_by_date d). c = c0" and "length (costs_by_date d) = length d"
proof -
  show "\<forall>c\<in>set (costs_by_date d). c = c0"
    using dict_get_const[OF assms] by (auto simp: costs_by_date_def)
  show "length (costs_by_date d) = length d"
    by (simp add: costs_by_date_def)
qed

lemma mean_const: "xs \<noteq> [] \<Longrightarrow> \<forall>x\<in>set xs. x = c \<Longrightarrow> mean xs = Inr c"
  by (simp add: mean_def sum_list_const)

lemma slope_of_const:
  assumes "\<forall>x\<in>set xs. x = c"
  shows "slope_of xs c = 0"
proof -
  have "sum_list (map (\<lambda>i. (real i - (real (length xs) - 1) / 2) * (xs ! i - c)) [0..<length xs]) = 0"
    using assms by (intro sum_list_all_zero) auto
  then show ?thesis by (simp add: slope_of_def Let_def)
qed

lemma percent_change_returns:
  assumes "length xs \<noteq> 7"
  shows "\<exists>p. percent_change_of xs = Inr p"
proof -
  consider "length xs < 7" | "14 \<le> length xs" | "7 < length xs" "length xs < 14"
    using assms by linarith
  then show ?thesis
  proof cases
    case 1
    then show ?thesis by (simp add: percent_change_of_def)
  next
    case 2
    then have "drop (length xs - 7) xs \<noteq> []" "take 7 (drop (length xs - 14) xs) \<noteq> []"
      by auto
    with 2 show ?thesis by (simp add: percent_change_of_def mean_def Let_def)
  next
    case 3
    then have "drop (length xs - 7) xs \<noteq> []" "take (length xs - 7) xs \<noteq> []"
      by auto
    with 3 show ?thesis by (simp add: percent_change_of_def mean_def Let_def)
  qed
qed

lemma py_round_zero: "py_round 0 n = 0"
  by (simp add: py_round_def)

text \<open>
  On every other length the analyzer returns, and a constant series of at least two days
  has slope 0 and direction \<open>stable\<close>.
\<close>

lemma constant_trend_stable:
  assumes const: "\<forall>c\<in>snd ` set (daily_costs_of cost_data). c = c0"
      and len: "2 \<le> length (daily_costs_of cost_data)" "length (daily_costs_of cost_data) \<noteq> 7"
  shows "\<exists>t. analyze_cost_trends cost_data = Inr (Some t) \<and> trend_direction t = ''stable''
             \<and> daily_change_rate t = 0 \<and> fitted_slope cost_data = 0"
proof -
  let ?costs = "costs_by_date (daily_costs_of cost_data)"
  note cc = costs_by_date_const[OF const]
  from cc(2) len have ne: "?costs \<noteq> []" by auto
  have m: "mean ?costs = Inr c0" by (rule mean_const[OF ne cc(1)])
  have m': "sum_list ?costs / real (length ?costs) = c0"
    using m ne by (simp add: mean_def)
  have s: "slope_of ?costs c0 = 0" by (rule slope_of_const[OF cc(1)])
  from percent_change_returns[of ?costs] cc(2) len(2)
  obtain p where p: "percent_change_of ?costs = Inr p" by auto
  from len(1) show ?thesis
    by (simp add: analyze_cost_trends_def fitted_slope_def Let_def m m' s p py_round_zero)
qed

text \<open>Whenever the analyzer returns a trend, its direction is the sign of the slope.\<close>

lemma trend_direction_by_slope:
  assumes "analyze_cost_trends cost_data = Inr (Some t)"
  shows "trend_direction t =
     (if 0 < fitted_slope cost_data then ''increasing''
      else if fitted_slope cost_data < 0 then ''decreasing'' else ''stable'')"
  using assms
  by (auto simp: analyze_cost_trends_def fitted_slope_def mean_def Let_def
           split: if_splits sum.splits)

text \<open>
  Claim C6 promises slope 0 and direction \<open>stable\<close> for every constant series of at
  least two days. On a series of exactly seven days the analyzer raises instead: the
  guard \<open>len(costs) >= 7\<close> lets \<open>mean(costs[:-7])\<close> run on the empty list.
\<close>

theorem flat_week_trend_raises: "analyze_cost_trends flat_week = Inl StatisticsError"
  by (simp add: analyze_cost_trends_def flat_week_daily flat_series_costs percent_change_of_def mean_def Let_def)
    (simp add: flat_series_def)
section \<open>Facts about the threshold evaluator\<close>





section \<open>Facts about the budget evaluator\<close>

text \<open>
  With a limit that is an \<open>int\<close> or a \<open>float\<close> the evaluator does what claim C2 says:
  one critical \<open>budget_exceeded\<close> alert from 100 percent, one \<open>budget_warning\<close> from 80
  percent up to 100, nothing below.
\<close>

lemma budget_checkpoints:
  assumes "\<forall>d. monthly_limit \<noteq> PyDecimal d" and "num_val monthly_limit \<noteq> 0"
  shows "map (\<lambda>a. (alert_type a, severity a))
           (check_budget_alerts now (budget_item monthly_limit) monthly_costs test) =
     (let p = percentage_used (sum_list (map cost_of monthly_costs)) (num_val monthly_limit)
      in if 100 \<le> p then [(''budget_exceeded'', ''critical'')]
         else if 80 \<le> p then [(''budget_warning'', ''warning'')]
         else [])"
  using assms
  by (cases monthly_limit)
     (auto simp add: check_budget_alerts_def budget_item_def dict_get_def py_sum_def truthy_def
        create_alert_def percentage_used_def Let_def)

lemma budget_checkpoints_int:
  "map alert_type (check_budget_alerts now (budget_item (PyInt 1000)) (month_of 790) test) = []"
  "map alert_type (check_budget_alerts now (budget_item (PyInt 1000)) (month_of 800) test)
     = [''budget_warning'']"
  "map alert_type (check_budget_alerts now (budget_item (PyInt 1000)) (month_of 1000) test)
     = [''budget_exceeded'']"
  by (simp_all add: check_budget_alerts_def budget_item_def month_of_def day_record_def
        dict_get_def py_sum_def truthy_def cost_of_def create_alert_def)

text \<open>
  Claim C2 is stated for every configured limit. The limit read from the configuration
  table is a \<open>Decimal\<close>, the month-to-date total is a \<open>float\<close>, and their quotient raises
  \<open>TypeError\<close>, which the evaluator catches: at a total of 1000 against a limit of 1000 it
  returns no alert where the claim requires one \<open>budget_exceeded\<close>.
\<close>

theorem budget_decimal_limit_silent:
  "check_budget_alerts now (budget_item (PyDecimal 1000)) (month_of 1000) test = []"
  by (simp add: check_budget_alerts_def budget_item_def month_of_def day_record_def
        dict_get_def py_sum_def truthy_def cost_of_def)
section \<open>Facts about the recommendation engine\<close>











section \<open>Facts about the alert lifecycle\<close>



lemma apply_op_length: "length (apply_op aid table op) = length table"
  by (cases op) (simp_all add: acknowledge_alert_def resolve_alert_def)


lemma run_ops_length: "length (run_ops aid ops table) = length table"
  unfolding run_ops_def by (induction ops arbitrary: table) (simp_all add: apply_op_length)


lemma resolved_table_row:
  "map (\<lambda>x. (status x, resolved x, acknowledged x)) resolved_table = [(''resolved'', True, False)]"
  by (simp add: resolved_table_def resolve_alert_def resolve_update_def breach_at_def
        create_alert_def)



section \<open>Facts about the alert manager\<close>

lemma same_key_refl: "same_key a a"
  by (simp add: same_key_def)

lemma scan_filter_same_key: "scan_filter rt a x \<Longrightarrow> same_key a x"
  by (simp add: scan_filter_def same_key_def)

lemma mark_sent_key_count:
  "length (filter (same_key a) (mark_sent table b)) = length (filter (same_key a) table)"
proof -
  have "filter (same_key a) (mark_sent table b)
        = map (\<lambda>x. if alert_id x = alert_id b \<and> timestamp x = timestamp b
              then x\<lparr> notification_sent := True, notification_channels := [''email'', ''slack''] \<rparr>
              else x) (filter (same_key a) table)"
    unfolding mark_sent_def filter_map
    by (rule arg_cong[where f = "map _"], rule filter_cong) (auto simp: same_key_def)
  then show ?thesis by simp
qed

lemma send_key_count:
  "length (filter (same_key a) (alerts_table (send_alert_notification tp e s b)))
   = length (filter (same_key a) (alerts_table s))"
  by (simp add: send_alert_notification_def Let_def mark_sent_key_count)

lemma put_item_first_of_key:
  "filter (same_key a) table = [] \<Longrightarrow> length (filter (same_key a) (put_item table a)) = 1"
proof (induction table)
  case Nil
  then show ?case by (simp add: same_key_refl)
next
  case (Cons x xs)
  from Cons.prems have x: "\<not> same_key a x" and xs: "filter (same_key a) xs = []"
    by (auto split: if_splits)
  show ?case
  proof (cases "alert_id x = alert_id a \<and> timestamp x = timestamp a")
    case True
    with xs show ?thesis by (simp add: same_key_refl)
  next
    case False
    then have "put_item (x # xs) a = x # put_item xs a" by auto
    with x Cons.IH[OF xs] show ?thesis by simp
  qed
qed


lemma put_item_mem: "a \<in> set (put_item table a)"
  by (induction table) auto

lemma mark_sent_row:
  assumes "x \<in> set table"
  shows "\<exists>y\<in>set (mark_sent table b). alert_type y = alert_type x \<and> service y = service x
      \<and> region y = region x \<and> status y = status x \<and> timestamp y = timestamp x"
proof -
  define f :: "alert \<Rightarrow> alert" where
    "f = (\<lambda>x. if alert_id x = alert_id b \<and> timestamp x = timestamp b
              then x\<lparr> notification_sent := True, notification_channels := [''email'', ''slack''] \<rparr>
              else x)"
  have m: "mark_sent table b = map f table"
    by (simp add: mark_sent_def f_def)
  from assms have "f x \<in> f ` set table" by (rule imageI)
  then have "f x \<in> set (mark_sent table b)"
    by (simp add: m)
  moreover have "alert_type (f x) = alert_type x \<and> service (f x) = service x
      \<and> region (f x) = region x \<and> status (f x) = status x \<and> timestamp (f x) = timestamp x"
    by (simp add: f_def)
  ultimately show ?thesis by blast
qed

lemma send_row:
  "x \<in> set (alerts_table s) \<Longrightarrow>
   \<exists>y\<in>set (alerts_table (send_alert_notification tp e s b)). alert_type y = alert_type x
      \<and> service y = service x \<and> region y = region x \<and> status y = status x
      \<and> timestamp y = timestamp x"
  using mark_sent_row[of x "alerts_table s" b]
  by (auto simp: send_alert_notification_def Let_def)




lemma stored_breach_eq:
  "stored_breach =
     \<lparr> alerts_table = [(breach_at 0)\<lparr> notification_sent := True,
                          notification_channels := [''email'', ''slack''] \<rparr>],
       published = [(''arn:alerts'', breach_at 0)] \<rparr>"
  by (simp add: stored_breach_def process_alerts_def process_alert_def is_duplicate_alert_def
       store_alert_def send_alert_notification_def get_topic_for_alert_def mark_sent_def
       world_def empty_store_def sample_topics_def breach_at_def create_alert_def Let_def)

text \<open>
  Claim C1 says that every candidate with an active alert of its type, service and region
  from the last hour is discarded. When the duplicate scan fails, the candidate is stored
  and notified although such an alert is in the table.
\<close>

theorem duplicate_stored_on_scan_failure_counterexample:
  "length (filter (scan_filter (600000000 - hours 1) later_breach) (alerts_table stored_breach)) = 1
   \<and> map timestamp
        (alerts_table (fst (process_alerts sample_topics (\<lambda>i. world 600000000 True False False)
                              stored_breach [later_breach])))
       = [0, 600000000]
   \<and> map (\<lambda>p. timestamp (snd p))
        (published (fst (process_alerts sample_topics (\<lambda>i. world 600000000 True False False)
                           stored_breach [later_breach])))
       = [0, 600000000]
   \<and> snd (process_alerts sample_topics (\<lambda>i. world 600000000 True False False)
             stored_breach [later_breach]) = 1"
  by (simp add: stored_breach_eq process_alerts_def process_alert_def is_duplicate_alert_def
        store_alert_def send_alert_notification_def get_topic_for_alert_def mark_sent_def
        scan_filter_def world_def sample_topics_def later_breach_def breach_at_def
        create_alert_def hours_def Let_def)

text \<open>
  Claim C1, amended. When the duplicate scan succeeds and the table holds an active alert
  with the candidate's type, service and region whose timestamp lies within the last
  hour, the candidate is discarded: the store (rows and notifications) and the count stay
  as they are. Hence, when no call fails, a candidate issued into a table without an
  alert of its key and issued again within one hour leaves exactly one alert of that key:
  the first run counts one, the second changes nothing.
\<close>

theorem duplicate_discarded_within_hour:
  "(\<not> scan_fails e \<and> x \<in> set (alerts_table s) \<and> same_key a x \<and> status x = ''active''
      \<and> clock e - hours 1 < timestamp x
     \<longrightarrow> process_alert tp e (s, c) a = (s, c))
   \<and> (filter (same_key (create_alert t ty sev sv rg cost thr test)) (alerts_table s0) = []
      \<and> \<not> scan_fails (E1 0) \<and> \<not> put_fails (E1 0) \<and> \<not> scan_fails (E2 0)
      \<and> clock (E2 0) - hours 1 < t
     \<longrightarrow> snd (process_alerts tp E1 s0 [create_alert t ty sev sv rg cost thr test]) = 1
       \<and> process_alerts tp E2
            (fst (process_alerts tp E1 s0 [create_alert t ty sev sv rg cost thr test]))
            [create_alert t' ty sev' sv rg cost' thr' test']
          = (fst (process_alerts tp E1 s0 [create_alert t ty sev sv rg cost thr test]), 0)
       \<and> length (filter (same_key (create_alert t ty sev sv rg cost thr test))
            (alerts_table (fst (process_alerts tp E1 s0
               [create_alert t ty sev sv rg cost thr test])))) = 1)"
proof (intro conjI impI)
  assume h: "\<not> scan_fails e \<and> x \<in> set (alerts_table s) \<and> same_key a x \<and> status x = ''active''
      \<and> clock e - hours 1 < timestamp x"
  then have "x \<in> set (filter (scan_filter (clock e - hours 1) a) (alerts_table s))"
    by (simp add: scan_filter_def same_key_def)
  then have "0 < length (filter (scan_filter (clock e - hours 1) a) (alerts_table s))"
    by (rule length_pos_if_in_set)
  with h show "process_alert tp e (s, c) a = (s, c)"
    by (simp add: process_alert_def is_duplicate_alert_def)
next
  let ?a = "create_alert t ty sev sv rg cost thr test"
  let ?b = "create_alert t' ty sev' sv rg cost' thr' test'"
  assume h: "filter (same_key ?a) (alerts_table s0) = []
      \<and> \<not> scan_fails (E1 0) \<and> \<not> put_fails (E1 0) \<and> \<not> scan_fails (E2 0)
      \<and> clock (E2 0) - hours 1 < t"
  have "filter (scan_filter (clock (E1 0) - hours 1) ?a) (alerts_table s0) = []"
  proof (rule ccontr)
    assume "filter (scan_filter (clock (E1 0) - hours 1) ?a) (alerts_table s0) \<noteq> []"
    then obtain y where "y \<in> set (alerts_table s0)" "scan_filter (clock (E1 0) - hours 1) ?a y"
      by (auto simp: filter_empty_conv)
    with scan_filter_same_key have "y \<in> set (filter (same_key ?a) (alerts_table s0))"
      by auto
    with h show False by simp
  qed
  then have nd: "\<not> is_duplicate_alert (E1 0) (alerts_table s0) ?a"
    by (simp add: is_duplicate_alert_def)
  let ?s1 = "send_alert_notification tp (E1 0) (s0\<lparr> alerts_table := put_item (alerts_table s0) ?a \<rparr>) ?a"
  from nd h have r1: "process_alerts tp E1 s0 [?a] = (?s1, 1)"
    by (simp add: process_alerts_def process_alert_def store_alert_def)
  show c1: "snd (process_alerts tp E1 s0 [?a]) = 1"
    by (simp add: r1)
  from h show n1: "length (filter (same_key ?a) (alerts_table (fst (process_alerts tp E1 s0 [?a])))) = 1"
    by (simp add: r1 send_key_count put_item_first_of_key)
  have "?a \<in> set (alerts_table (s0\<lparr> alerts_table := put_item (alerts_table s0) ?a \<rparr>))"
    by (simp add: put_item_mem)
  from send_row[OF this, of tp "E1 0" ?a] obtain y where
    y: "y \<in> set (alerts_table ?s1)" "alert_type y = alert_type ?a" "service y = service ?a"
       "region y = region ?a" "status y = status ?a" "timestamp y = timestamp ?a"
    by blast
  from y h have "scan_filter (clock (E2 0) - hours 1) ?b y"
    by (simp add: scan_filter_def create_alert_def)
  with y(1) have "y \<in> set (filter (scan_filter (clock (E2 0) - hours 1) ?b) (alerts_table ?s1))"
    by simp
  then have "0 < length (filter (scan_filter (clock (E2 0) - hours 1) ?b) (alerts_table ?s1))"
    by (rule length_pos_if_in_set)
  with h have "is_duplicate_alert (E2 0) (alerts_table ?s1) ?b"
    by (simp add: is_duplicate_alert_def)
  then show "process_alerts tp E2 (fst (process_alerts tp E1 s0 [?a])) [?b]
          = (fst (process_alerts tp E1 s0 [?a]), 0)"
    unfolding r1 fst_conv by (simp add: process_alerts_def process_alert_def)
qed

text \<open>
  The theorem ten minutes after the first run, with every call succeeding: the stored
  alert makes the second candidate a duplicate.
\<close>

theorem duplicate_discarded_within_hour_witness:
  "\<not> scan_fails (world 600000000 False False False)
   \<and> (breach_at 0)\<lparr> notification_sent := True, notification_channels := [''email'', ''slack''] \<rparr>
        \<in> set (alerts_table stored_breach)
   \<and> process_alert sample_topics (world 600000000 False False False) (stored_breach, 0) later_breach
       = (stored_breach, 0)
   \<and> filter (same_key (breach_at 0)) (alerts_table empty_store) = []
   \<and> clock (world 600000000 False False False) - hours 1 < 0
   \<and> snd (process_alerts sample_topics (\<lambda>i. world 1000000 False False False) empty_store
             [breach_at 0]) = 1
   \<and> process_alerts sample_topics (\<lambda>i. world 600000000 False False False) stored_breach
        [later_breach] = (stored_breach, 0)
   \<and> length (filter (same_key (breach_at 0)) (alerts_table stored_breach)) = 1"
proof -
  let ?e = "world 600000000 False False False"
  let ?x = "(breach_at 0)\<lparr> notification_sent := True, notification_channels := [''email'', ''slack''] \<rparr>"
  have e: "\<not> scan_fails ?e" "\<not> put_fails ?e" "clock ?e - hours 1 < 0"
    "\<not> scan_fails (world 1000000 False False False)"
    "\<not> put_fails (world 1000000 False False False)"
    by (simp_all add: world_def hours_def)
  have x: "?x \<in> set (alerts_table stored_breach)" "same_key later_breach ?x" "status ?x = ''active''"
    "clock ?e - hours 1 < timestamp ?x"
    by (simp_all add: stored_breach_eq same_key_def later_breach_def breach_at_def create_alert_def
          world_def hours_def)
  have emp: "filter (same_key (breach_at 0)) (alerts_table empty_store) = []"
    by (simp add: empty_store_def)
  have b0: "create_alert 0 ''threshold_breach'' ''warning'' ''Overall'' ''All'' 150 100 False
            = breach_at 0"
    by (simp add: breach_at_def)
  have lb: "create_alert 600000000 ''threshold_breach'' ''warning'' ''Overall'' ''All'' 150 100 False
            = later_breach"
    by (simp add: later_breach_def breach_at_def)
  note inst = duplicate_discarded_within_hour[of ?e ?x stored_breach later_breach sample_topics 0
        0 "''threshold_breach''" "''warning''" "''Overall''" "''All''" 150 100 False empty_store
        "\<lambda>i. world 1000000 False False False" "\<lambda>i. ?e"
        600000000 "''warning''" 150 100 False, unfolded b0 lb stored_breach_def[symmetric]]
  from inst e x emp show ?thesis
    by simp
qed


end
